theory Spec2Isabelle
  imports Complex_Main
begin

section \<open>MedPredict AI: the script \<^verbatim>\<open>medapp.py\<close>\<close>

text \<open>
  The script loads pickled classifiers, shows one of three forms and calls the selected
  classifier. The embedding keeps what the script computes and what it does to the
  outside: every call of \<^verbatim>\<open>joblib.load\<close>, every call of a method of a loaded object
  and every message given to \<^verbatim>\<open>st.error\<close>, \<^verbatim>\<open>st.success\<close> or \<^verbatim>\<open>st.warning\<close> is
  appended to a trace. Widgets are inputs: the value a widget returns is an argument of
  the page that reads it. Layout, CSS, headers and the footer are left out.
\<close>

subsection \<open>Python values\<close>

text \<open>
  Exceptions of class \<^verbatim>\<open>Exception\<close>. \<open>Exception msg\<close> stands for any other
  exception of that class raised by a collaborator (the unpickler, a model method).
\<close>

datatype py_error = KeyError string | IndexError | AttributeError | Exception string

text \<open>
  A number in a feature row: a Python \<^verbatim>\<open>int\<close> or a \<^verbatim>\<open>float\<close>. The script never
  computes with floats, it only passes them on, so their type \<open>'f\<close> is a parameter.
\<close>

datatype 'f num = PyInt int | PyFloat 'f

text \<open>
  \<^verbatim>\<open>xs[i]\<close> on a list or an array: a negative index counts from the end, an index out
  of range raises \<^verbatim>\<open>IndexError\<close>.
\<close>

definition subscript :: "'a list \<Rightarrow> int \<Rightarrow> py_error + 'a" where
  "subscript xs i =
     (if 0 \<le> i \<and> i < int (length xs) then Inr (xs ! nat i)
      else if i < 0 \<and> - int (length xs) \<le> i then Inr (xs ! nat (int (length xs) + i))
      else Inl IndexError)"

text \<open>\<^verbatim>\<open>sep.join(xs)\<close> on a list of strings.\<close>

fun join :: "string \<Rightarrow> string list \<Rightarrow> string" where
  "join sep [] = []"
| "join sep [x] = x"
| "join sep (x # y # ys) = x @ sep @ join sep (y # ys)"

text \<open>
  A list display \<^verbatim>\<open>[e1, ..., en]\<close>: the elements are evaluated from left to right and
  the first exception ends the evaluation.
\<close>

fun list_display :: "(py_error + 'a) list \<Rightarrow> py_error + 'a list" where
  "list_display [] = Inr []"
| "list_display (Inl e # rs) = Inl e"
| "list_display (Inr v # rs) =
     (case list_display rs of Inl e \<Rightarrow> Inl e | Inr vs \<Rightarrow> Inr (v # vs))"

subsection \<open>Loaded objects, messages and the trace\<close>

datatype py_method = Predict | Predict_proba | Transform

text \<open>
  What the script passes to a method: a list of feature rows, a list of texts (to the
  vectorizer), or what the vectorizer returned (a matrix, of a type \<open>'v\<close> the script
  never looks into).
\<close>

datatype ('f, 'v) arg = Rows "'f num list list" | Texts "string list" | Matrix 'v

text \<open>
  An object returned by \<^verbatim>\<open>joblib.load\<close>. Its methods are the three the script calls;
  each returns or raises. \<^verbatim>\<open>predict\<close> returns an array of labels,
  \<^verbatim>\<open>predict_proba\<close> an array of rows of probabilities.
\<close>

record ('f, 'v) artifact =
  predict :: "('f, 'v) arg \<Rightarrow> py_error + int list"
  predict_proba :: "('f, 'v) arg \<Rightarrow> py_error + 'f list list"
  transform :: "('f, 'v) arg \<Rightarrow> py_error + 'v"

text \<open>
  A message. The emoji that starts each message of the script is left out.
  \<open>With_exception s e\<close> is the f-string \<^verbatim>\<open>f"s{e}"\<close>; \<open>With_confidence s p\<close> is
  \<^verbatim>\<open>f"s (Confidence: {p:.2%})"\<close>.
\<close>

datatype 'f msg = Plain string | With_exception string py_error | With_confidence string 'f

datatype ('f, 'v) event =
    Joblib_load string
  | Invoke string py_method "('f, 'v) arg"
  | St_error "'f msg"
  | St_success "'f msg"
  | St_warning "'f msg"

text \<open>
  The state: the dictionary \<^verbatim>\<open>models\<close> (there is one such object: \<^verbatim>\<open>load_models\<close>
  creates and returns it, and the module binds it to the global \<^verbatim>\<open>models\<close>), whose
  values are a loaded object or \<^verbatim>\<open>None\<close>, and the trace.
\<close>

record ('f, 'v) world =
  dict :: "string \<rightharpoonup> ('f, 'v) artifact option"
  trace :: "('f, 'v) event list"

subsection \<open>Statements: state and exceptions\<close>

text \<open>
  A statement or expression takes the state and gives a value or raises, together with
  the state it leaves; what was done before a raise stays done.
\<close>

type_synonym ('f, 'v, 'a) py = "('f, 'v) world \<Rightarrow> (py_error + 'a) \<times> ('f, 'v) world"

definition unit_py :: "'a \<Rightarrow> ('f, 'v, 'a) py" where
  "unit_py x = (\<lambda>w. (Inr x, w))"

definition lift :: "py_error + 'a \<Rightarrow> ('f, 'v, 'a) py" where
  "lift r = (\<lambda>w. (r, w))"

definition bind_py :: "('f, 'v, 'a) py \<Rightarrow> ('a \<Rightarrow> ('f, 'v, 'b) py) \<Rightarrow> ('f, 'v, 'b) py" where
  "bind_py m f = (\<lambda>w. case m w of (Inl e, w') \<Rightarrow> (Inl e, w') | (Inr x, w') \<Rightarrow> f x w')"

text \<open>\<^verbatim>\<open>try: body  except Exception as e: handler\<close>\<close>

definition try_except :: "('f, 'v, 'a) py \<Rightarrow> (py_error \<Rightarrow> ('f, 'v, 'a) py) \<Rightarrow> ('f, 'v, 'a) py" where
  "try_except body handler =
     (\<lambda>w. case body w of (Inl e, w') \<Rightarrow> handler e w' | (Inr x, w') \<Rightarrow> (Inr x, w'))"

definition emit :: "('f, 'v) event \<Rightarrow> ('f, 'v, unit) py" where
  "emit ev = (\<lambda>w. (Inr (), w\<lparr>trace := trace w @ [ev]\<rparr>))"

definition st_error :: "'f msg \<Rightarrow> ('f, 'v, unit) py" where
  "st_error m = emit (St_error m)"

definition st_success :: "'f msg \<Rightarrow> ('f, 'v, unit) py" where
  "st_success m = emit (St_success m)"

definition st_warning :: "'f msg \<Rightarrow> ('f, 'v, unit) py" where
  "st_warning m = emit (St_warning m)"

text \<open>\<^verbatim>\<open>models = {}\<close>, \<^verbatim>\<open>models[k] = v\<close>, \<^verbatim>\<open>models[k]\<close> and \<^verbatim>\<open>return models\<close>\<close>

definition new_dict :: "('f, 'v, unit) py" where
  "new_dict = (\<lambda>w. (Inr (), w\<lparr>dict := Map.empty\<rparr>))"

definition setitem :: "string \<Rightarrow> ('f, 'v) artifact option \<Rightarrow> ('f, 'v, unit) py" where
  "setitem k v = (\<lambda>w. (Inr (), w\<lparr>dict := (dict w)(k \<mapsto> v)\<rparr>))"

definition getitem :: "string \<Rightarrow> ('f, 'v, ('f, 'v) artifact option) py" where
  "getitem k = (\<lambda>w. (case dict w k of None \<Rightarrow> Inl (KeyError k) | Some v \<Rightarrow> Inr v, w))"

definition the_dict :: "('f, 'v, string \<rightharpoonup> ('f, 'v) artifact option) py" where
  "the_dict = (\<lambda>w. (Inr (dict w), w))"

text \<open>
  \<^verbatim>\<open>joblib.load(path)\<close>. The unpickler \<open>jl\<close> is a parameter: a path gives what the
  file holds, an object or \<^verbatim>\<open>None\<close> (a pickle of \<^verbatim>\<open>None\<close> loads without an error), or an
  exception.
\<close>

definition joblib_load ::
  "(string \<Rightarrow> py_error + ('f, 'v) artifact option) \<Rightarrow> string \<Rightarrow> ('f, 'v, ('f, 'v) artifact option) py" where
  "joblib_load jl path = bind_py (emit (Joblib_load path)) (\<lambda>_. lift (jl path))"

text \<open>
  \<^verbatim>\<open>models[k].predict(x)\<close> and its two siblings: the dictionary is read, the attribute
  is looked up (\<^verbatim>\<open>None\<close> has none), the method is called.
\<close>

definition call_predict :: "string \<Rightarrow> ('f, 'v) arg \<Rightarrow> ('f, 'v, int list) py" where
  "call_predict k x =
     bind_py (getitem k) (\<lambda>h. case h of
         None \<Rightarrow> lift (Inl AttributeError)
       | Some m \<Rightarrow> bind_py (emit (Invoke k Predict x)) (\<lambda>_. lift (predict m x)))"

definition call_predict_proba :: "string \<Rightarrow> ('f, 'v) arg \<Rightarrow> ('f, 'v, 'f list list) py" where
  "call_predict_proba k x =
     bind_py (getitem k) (\<lambda>h. case h of
         None \<Rightarrow> lift (Inl AttributeError)
       | Some m \<Rightarrow> bind_py (emit (Invoke k Predict_proba x)) (\<lambda>_. lift (predict_proba m x)))"

definition call_transform :: "string \<Rightarrow> ('f, 'v) arg \<Rightarrow> ('f, 'v, 'v) py" where
  "call_transform k x =
     bind_py (getitem k) (\<lambda>h. case h of
         None \<Rightarrow> lift (Inl AttributeError)
       | Some m \<Rightarrow> bind_py (emit (Invoke k Transform x)) (\<lambda>_. lift (transform m x)))"

subsection \<open>Loading the models (lines 20 to 42)\<close>

text \<open>The three \<^verbatim>\<open>try\<close> statements of \<^verbatim>\<open>load_models\<close>, in the order of the source.\<close>

definition load_hepatitis :: "(string \<Rightarrow> py_error + ('f, 'v) artifact option) \<Rightarrow> ('f, 'v, unit) py" where
  "load_hepatitis jl =
     try_except
       (bind_py (joblib_load jl ''models/hepatitis_model.pkl'') (\<lambda>h.
        setitem ''hepatitis'' h))
       (\<lambda>e. bind_py (setitem ''hepatitis'' None) (\<lambda>_.
             st_error (With_exception ''Error loading Hepatitis model: '' e)))"

definition load_hiv :: "(string \<Rightarrow> py_error + ('f, 'v) artifact option) \<Rightarrow> ('f, 'v, unit) py" where
  "load_hiv jl =
     try_except
       (bind_py (joblib_load jl ''models/hiv_model.pkl'') (\<lambda>h.
        bind_py (setitem ''hiv'' h) (\<lambda>_.
        bind_py (joblib_load jl ''models/vectorizer.pkl'') (\<lambda>v.
        setitem ''vectorizer'' v))))
       (\<lambda>e. bind_py (setitem ''hiv'' None) (\<lambda>_.
             bind_py (setitem ''vectorizer'' None) (\<lambda>_.
             st_error (With_exception ''Error loading HIV model/vectorizer: '' e))))"

definition load_tb :: "(string \<Rightarrow> py_error + ('f, 'v) artifact option) \<Rightarrow> ('f, 'v, unit) py" where
  "load_tb jl =
     try_except
       (bind_py (joblib_load jl ''models/tb_predictor_model.pkl'') (\<lambda>h.
        setitem ''tb'' h))
       (\<lambda>e. bind_py (setitem ''tb'' None) (\<lambda>_.
             st_error (With_exception ''Error loading TB model: '' e)))"

definition load_models ::
  "(string \<Rightarrow> py_error + ('f, 'v) artifact option) \<Rightarrow>
   ('f, 'v, string \<rightharpoonup> ('f, 'v) artifact option) py" where
  "load_models jl =
     bind_py new_dict (\<lambda>_.
     bind_py (load_hepatitis jl) (\<lambda>_.
     bind_py (load_hiv jl) (\<lambda>_.
     bind_py (load_tb jl) (\<lambda>_.
     the_dict))))"

subsection \<open>The encoders (lines 63 and 64)\<close>

definition map_bool :: "string \<Rightarrow> py_error + int" where
  "map_bool val =
     (case map_of [(''False'', 0), (''True'', 1), (''Unknown'', - 1)] val of
        None \<Rightarrow> Inl (KeyError val)
      | Some n \<Rightarrow> Inr n)"

definition map_sex :: "string \<Rightarrow> int" where
  "map_sex val = (if val = ''male'' then 0 else 1)"

subsection \<open>The hepatitis page (lines 67 to 108)\<close>

text \<open>
  The values of the seventeen widgets of the form. The slider and the number inputs
  with integer bounds return an \<^verbatim>\<open>int\<close>, those with float bounds a \<^verbatim>\<open>float\<close>; a
  select box returns the chosen string.
\<close>

record 'f hep_form =
  age :: int
  sex :: string
  steroid :: string
  antivirals :: string
  fatigue :: string
  anorexia :: string
  spiders :: string
  ascites :: string
  liver_big :: string
  spleen_palpable :: string
  varices :: string
  histology :: string
  bilirubin :: 'f
  alk_phos :: int
  sgot :: int
  albumin :: 'f
  protime :: int

definition py_int :: "int \<Rightarrow> py_error + 'f num" where
  "py_int n = Inr (PyInt n)"

definition py_float :: "'f \<Rightarrow> py_error + 'f num" where
  "py_float x = Inr (PyFloat x)"

definition encoded :: "py_error + int \<Rightarrow> py_error + 'f num" where
  "encoded r = (case r of Inl e \<Rightarrow> Inl e | Inr n \<Rightarrow> Inr (PyInt n))"

text \<open>The list \<^verbatim>\<open>features\<close> of lines 97 to 103.\<close>

definition features :: "'f hep_form \<Rightarrow> py_error + 'f num list" where
  "features f = list_display
     [py_int (age f), py_int (map_sex (sex f)), encoded (map_bool (steroid f)),
      encoded (map_bool (antivirals f)),
      encoded (map_bool (fatigue f)), encoded (map_bool (anorexia f)),
      encoded (map_bool (liver_big f)),
      encoded (map_bool (spleen_palpable f)), encoded (map_bool (spiders f)),
      encoded (map_bool (ascites f)),
      encoded (map_bool (varices f)), encoded (map_bool (histology f)),
      py_float (bilirubin f), py_int (alk_phos f),
      py_int (sgot f), py_float (albumin f), py_int (protime f)]"

text \<open>The branch \<^verbatim>\<open>choice == "Hepatitis"\<close>; \<open>submit\<close> is the form's button.\<close>

definition hepatitis_page :: "'f hep_form \<Rightarrow> bool \<Rightarrow> ('f, 'v, unit) py" where
  "hepatitis_page f submit =
     bind_py (getitem ''hepatitis'') (\<lambda>h.
     if Option.is_none h then st_error (Plain ''Hepatitis model not found.'')
     else if submit then
       bind_py (lift (features f)) (\<lambda>fs.
       bind_py (call_predict ''hepatitis'' (Rows [fs])) (\<lambda>ys.
       bind_py (lift (subscript ys 0)) (\<lambda>pred.
       if pred = 1 then st_success (Plain ''Favorable Prognosis'')
       else st_error (Plain ''Concerning Prognosis''))))
     else unit_py ())"

subsection \<open>The HIV page (lines 111 to 133)\<close>

definition symptoms :: "string list" where
  "symptoms =
     [''Fever'', ''Night Sweats'', ''Fatigue'', ''Weight Loss'', ''Diarrhea'', ''Skin Lesions'',
      ''Oral Candidiasis'', ''Lymph Nodes'', ''Neuro Symptoms'', ''Opportunistic Infections'']"

text \<open>
  \<^verbatim>\<open>models["hiv"] is None or models["vectorizer"] is None\<close>: the second operand is
  evaluated only when the first is false.
\<close>

definition hiv_unavailable :: "('f, 'v, bool) py" where
  "hiv_unavailable =
     bind_py (getitem ''hiv'') (\<lambda>h.
     if Option.is_none h then unit_py True
     else bind_py (getitem ''vectorizer'') (\<lambda>v. unit_py (Option.is_none v)))"

text \<open>
  The branch \<^verbatim>\<open>choice == "HIV"\<close>; \<open>selected\<close> is the list the multiselect returns,
  \<open>button\<close> whether "Assess Risk" was pressed.
\<close>

definition hiv_page :: "string list \<Rightarrow> bool \<Rightarrow> ('f, 'v, unit) py" where
  "hiv_page selected button =
     bind_py hiv_unavailable (\<lambda>absent.
     if absent then st_error (Plain ''Model or vectorizer not found.'')
     else if button then
       (if selected = [] then st_warning (Plain ''Please select symptoms'')
        else
          bind_py (call_transform ''vectorizer'' (Texts [join '', '' selected])) (\<lambda>vec.
          bind_py (call_predict ''hiv'' (Matrix vec)) (\<lambda>ys.
          bind_py (lift (subscript ys 0)) (\<lambda>pred.
          bind_py (call_predict_proba ''hiv'' (Matrix vec)) (\<lambda>rows.
          bind_py (lift (subscript rows 0)) (\<lambda>row.
          bind_py (lift (subscript row pred)) (\<lambda>prob.
          if pred = 1 then st_error (With_confidence ''High Risk'' prob)
          else st_success (With_confidence ''Low Risk'' prob))))))))
     else unit_py ())"

subsection \<open>The tuberculosis page (lines 136 to 156)\<close>

definition tb_symptoms :: "string list" where
  "tb_symptoms =
     [''Fever'', ''Cough'', ''Night Sweats'', ''Weight Loss'', ''Chest Pain'',
      ''Hemoptysis'', ''Fatigue'', ''Lymphadenopathy'']"

text \<open>
  The loop of lines 146 to 148 over the symptoms still to ask; \<open>answer s\<close> is what the
  select box with key \<open>s\<close> returns, \<open>data\<close> the list \<^verbatim>\<open>tb_data\<close> so far.
\<close>

fun tb_loop :: "(string \<Rightarrow> string) \<Rightarrow> string list \<Rightarrow> int list \<Rightarrow> int list" where
  "tb_loop answer [] data = data"
| "tb_loop answer (s # ss) data =
     tb_loop answer ss (data @ [if answer s = ''Present'' then 1 else 0])"

definition tb_data :: "(string \<Rightarrow> string) \<Rightarrow> int list" where
  "tb_data answer = tb_loop answer tb_symptoms []"

text \<open>The branch \<^verbatim>\<open>choice == "Tuberculosis"\<close>; \<open>button\<close> is "Run TB Screening".\<close>

definition tb_page :: "(string \<Rightarrow> string) \<Rightarrow> bool \<Rightarrow> ('f, 'v, unit) py" where
  "tb_page answer button =
     bind_py (getitem ''tb'') (\<lambda>h.
     if Option.is_none h then st_error (Plain ''TB model not found.'')
     else if button then
       bind_py (call_predict ''tb'' (Rows [map PyInt (tb_data answer)])) (\<lambda>ys.
       bind_py (lift (subscript ys 0)) (\<lambda>pred.
       bind_py (call_predict_proba ''tb'' (Rows [map PyInt (tb_data answer)])) (\<lambda>rows.
       bind_py (lift (subscript rows 0)) (\<lambda>row.
       bind_py (lift (subscript row pred)) (\<lambda>prob.
       if pred = 1 then st_error (With_confidence ''High TB Risk'' prob)
       else st_success (With_confidence ''Low TB Risk'' prob))))))
     else unit_py ())"

subsection \<open>Observations on a trace\<close>

text \<open>The events a statement appends to the trace when it runs in the state \<open>w\<close>.\<close>

definition performed :: "('f, 'v, 'a) py \<Rightarrow> ('f, 'v) world \<Rightarrow> ('f, 'v) event list" where
  "performed c w = drop (length (trace w)) (trace (snd (c w)))"

text \<open>The calls of the method \<open>m\<close>: the key of the object called and the argument.\<close>

fun calls :: "py_method \<Rightarrow> ('f, 'v) event list \<Rightarrow> (string \<times> ('f, 'v) arg) list" where
  "calls m [] = []"
| "calls m (Invoke k m' x # evs) = (if m' = m then (k, x) # calls m evs else calls m evs)"
| "calls m (ev # evs) = calls m evs"

text \<open>The messages shown, and the confidences they report.\<close>

fun messages :: "('f, 'v) event list \<Rightarrow> ('f, 'v) event list" where
  "messages [] = []"
| "messages (Joblib_load p # evs) = messages evs"
| "messages (Invoke k m x # evs) = messages evs"
| "messages (ev # evs) = ev # messages evs"

fun confidence_of :: "'f msg \<Rightarrow> 'f list" where
  "confidence_of (With_confidence s p) = [p]"
| "confidence_of m = []"

fun confidences :: "('f, 'v) event list \<Rightarrow> 'f list" where
  "confidences [] = []"
| "confidences (St_error m # evs) = confidence_of m @ confidences evs"
| "confidences (St_success m # evs) = confidence_of m @ confidences evs"
| "confidences (St_warning m # evs) = confidence_of m @ confidences evs"
| "confidences (ev # evs) = confidences evs"

subsection \<open>The order of the hepatitis fields in the specification\<close>

text \<open>
  Follows the specification's words (section 4.3), for comparison with \<open>features\<close>: age,
  encoded sex, steroid, antivirals, fatigue, anorexia, spiders, ascites, liver-enlarged,
  spleen-palpable, varices, histology, bilirubin, alkaline phosphatase, SGOT, albumin,
  prothrombin time.
\<close>

definition spec_order_features :: "'f hep_form \<Rightarrow> py_error + 'f num list" where
  "spec_order_features f = list_display
     [py_int (age f), py_int (map_sex (sex f)), encoded (map_bool (steroid f)),
      encoded (map_bool (antivirals f)), encoded (map_bool (fatigue f)),
      encoded (map_bool (anorexia f)), encoded (map_bool (spiders f)),
      encoded (map_bool (ascites f)), encoded (map_bool (liver_big f)),
      encoded (map_bool (spleen_palpable f)), encoded (map_bool (varices f)),
      encoded (map_bool (histology f)), py_float (bilirubin f), py_int (alk_phos f),
      py_int (sgot f), py_float (albumin f), py_int (protime f)]"

subsection \<open>Concrete inputs\<close>

text \<open>
  A classifier that answers every input with the same labels and the same rows of
  probabilities, a vectorizer that concatenates its texts, three unpicklers (one finds
  every file, one misses the HIV model, one finds a pickle of \<^verbatim>\<open>None\<close> where the vectorizer
  should be) and a filled hepatitis form.
\<close>

definition fixed_classifier :: "int list \<Rightarrow> real list list \<Rightarrow> (real, string) artifact" where
  "fixed_classifier labels rows =
     \<lparr>predict = (\<lambda>x. Inr labels), predict_proba = (\<lambda>x. Inr rows),
      transform = (\<lambda>x. Inl AttributeError)\<rparr>"

definition example_vectorizer :: "(real, string) artifact" where
  "example_vectorizer =
     \<lparr>predict = (\<lambda>x. Inl AttributeError), predict_proba = (\<lambda>x. Inl AttributeError),
      transform = (\<lambda>x. case x of Texts ts \<Rightarrow> Inr (concat ts) | _ \<Rightarrow> Inl (Exception ''not a list of texts''))\<rparr>"

definition example_loader ::
  "int list \<Rightarrow> real list list \<Rightarrow> string \<Rightarrow> py_error + (real, string) artifact option" where
  "example_loader labels rows path =
     (if path = ''models/vectorizer.pkl'' then Inr (Some example_vectorizer)
      else Inr (Some (fixed_classifier labels rows)))"

definition hiv_missing_loader :: "string \<Rightarrow> py_error + (real, string) artifact option" where
  "hiv_missing_loader path =
     (if path = ''models/hiv_model.pkl'' then Inl (Exception ''No such file'')
      else example_loader [0] [[3 / 10, 7 / 10]] path)"


definition empty_world :: "(real, string) world" where
  "empty_world = \<lparr>dict = Map.empty, trace = []\<rparr>"

definition loaded_world :: "int list \<Rightarrow> real list list \<Rightarrow> (real, string) world" where
  "loaded_world labels rows = snd (load_models (example_loader labels rows) empty_world)"

definition example_form :: "real hep_form" where
  "example_form =
     \<lparr>age = 40, sex = ''male'', steroid = ''False'', antivirals = ''False'',
      fatigue = ''False'', anorexia = ''False'', spiders = ''True'', ascites = ''Unknown'',
      liver_big = ''False'', spleen_palpable = ''False'', varices = ''False'',
      histology = ''False'', bilirubin = 1, alk_phos = 85, sgot = 25, albumin = 4,
      protime = 85\<rparr>"

section \<open>Running the statements\<close>

lemmas py_defs = unit_py_def lift_def bind_py_def try_except_def emit_def st_error_def
  st_success_def st_warning_def new_dict_def setitem_def getitem_def the_dict_def
  joblib_load_def call_predict_def call_predict_proba_def call_transform_def

lemma calls_append [simp]: "calls m (xs @ ys) = calls m xs @ calls m ys"
  by (induction m xs rule: calls.induct) simp_all

lemma confidences_append [simp]: "confidences (xs @ ys) = confidences xs @ confidences ys"
  by (induction xs rule: confidences.induct) simp_all

lemma messages_append [simp]: "messages (xs @ ys) = messages xs @ messages ys"
  by (induction xs rule: messages.induct) simp_all

lemma join_cons: "join sep (x # ys) = x @ concat (map (\<lambda>s. sep @ s) ys)"
  by (induction ys arbitrary: x) simp_all

subsection \<open>Loading\<close>

lemma load_hepatitis_run:
  "load_hepatitis jl w =
     (Inr (), w\<lparr>dict := (dict w)(''hepatitis'' \<mapsto>
                   (case jl ''models/hepatitis_model.pkl'' of Inl e \<Rightarrow> None | Inr h \<Rightarrow> h)),
               trace := trace w @ Joblib_load ''models/hepatitis_model.pkl'' #
                   (case jl ''models/hepatitis_model.pkl'' of
                      Inl e \<Rightarrow> [St_error (With_exception ''Error loading Hepatitis model: '' e)]
                    | Inr h \<Rightarrow> [])\<rparr>)"
  by (simp add: load_hepatitis_def py_defs split: sum.splits)

lemma load_tb_run:
  "load_tb jl w =
     (Inr (), w\<lparr>dict := (dict w)(''tb'' \<mapsto>
                   (case jl ''models/tb_predictor_model.pkl'' of Inl e \<Rightarrow> None | Inr h \<Rightarrow> h)),
               trace := trace w @ Joblib_load ''models/tb_predictor_model.pkl'' #
                   (case jl ''models/tb_predictor_model.pkl'' of
                      Inl e \<Rightarrow> [St_error (With_exception ''Error loading TB model: '' e)]
                    | Inr h \<Rightarrow> [])\<rparr>)"
  by (simp add: load_tb_def py_defs split: sum.splits)

lemma load_hiv_run:
  "load_hiv jl w =
     (Inr (),
      w\<lparr>dict := (dict w)
           (''hiv'' \<mapsto>
              (case jl ''models/hiv_model.pkl'' of Inl e \<Rightarrow> None
               | Inr h \<Rightarrow> (case jl ''models/vectorizer.pkl'' of Inl e \<Rightarrow> None | Inr v \<Rightarrow> h)),
            ''vectorizer'' \<mapsto>
              (case jl ''models/hiv_model.pkl'' of Inl e \<Rightarrow> None
               | Inr h \<Rightarrow> (case jl ''models/vectorizer.pkl'' of Inl e \<Rightarrow> None | Inr v \<Rightarrow> v))),
        trace := trace w @ Joblib_load ''models/hiv_model.pkl'' #
           (case jl ''models/hiv_model.pkl'' of
              Inl e \<Rightarrow> [St_error (With_exception ''Error loading HIV model/vectorizer: '' e)]
            | Inr h \<Rightarrow> Joblib_load ''models/vectorizer.pkl'' #
                (case jl ''models/vectorizer.pkl'' of
                   Inl e \<Rightarrow> [St_error (With_exception ''Error loading HIV model/vectorizer: '' e)]
                 | Inr v \<Rightarrow> []))\<rparr>)"
  by (simp add: load_hiv_def py_defs split: sum.splits)

lemma load_models_run:
  "load_models jl w =
     (Inr (dict (snd (load_tb jl (snd (load_hiv jl (snd (load_hepatitis jl (w\<lparr>dict := Map.empty\<rparr>)))))))),
      snd (load_tb jl (snd (load_hiv jl (snd (load_hepatitis jl (w\<lparr>dict := Map.empty\<rparr>)))))))"
  by (simp add: load_models_def bind_py_def new_dict_def the_dict_def load_hepatitis_run load_hiv_run load_tb_run)

lemmas load_runs = load_models_run load_tb_run load_hiv_run load_hepatitis_run

lemma load_models_never_raises: "fst (load_models jl w) = Inr (dict (snd (load_models jl w)))"
  by (simp add: load_models_run)

lemma load_models_dom: "dom (dict (snd (load_models jl w))) = {''hepatitis'', ''hiv'', ''vectorizer'', ''tb''}"
  by (auto simp add: load_runs)

lemma load_models_hepatitis: "dict (snd (load_models jl w)) ''hepatitis'' = Some (case jl ''models/hepatitis_model.pkl'' of Inl e \<Rightarrow> None | Inr h \<Rightarrow> h)"
  by (simp add: load_runs)

lemma load_models_tb: "dict (snd (load_models jl w)) ''tb'' = Some (case jl ''models/tb_predictor_model.pkl'' of Inl e \<Rightarrow> None | Inr h \<Rightarrow> h)"
  by (simp add: load_runs)

lemma load_models_hiv: "dict (snd (load_models jl w)) ''hiv'' = Some (case jl ''models/hiv_model.pkl'' of Inl e \<Rightarrow> None | Inr h \<Rightarrow> (case jl ''models/vectorizer.pkl'' of Inl e \<Rightarrow> None | Inr v \<Rightarrow> h))"
  by (simp add: load_runs)

lemma load_models_vectorizer: "dict (snd (load_models jl w)) ''vectorizer'' = Some (case jl ''models/hiv_model.pkl'' of Inl e \<Rightarrow> None | Inr h \<Rightarrow> (case jl ''models/vectorizer.pkl'' of Inl e \<Rightarrow> None | Inr v \<Rightarrow> v))"
  by (simp add: load_runs)

lemma load_models_performed:
  "performed (load_models jl) w =
     Joblib_load ''models/hepatitis_model.pkl'' #
     (case jl ''models/hepatitis_model.pkl'' of
        Inl e \<Rightarrow> [St_error (With_exception ''Error loading Hepatitis model: '' e)] | Inr h \<Rightarrow> []) @
     Joblib_load ''models/hiv_model.pkl'' #
     (case jl ''models/hiv_model.pkl'' of
        Inl e \<Rightarrow> [St_error (With_exception ''Error loading HIV model/vectorizer: '' e)]
      | Inr h \<Rightarrow> Joblib_load ''models/vectorizer.pkl'' #
          (case jl ''models/vectorizer.pkl'' of
             Inl e \<Rightarrow> [St_error (With_exception ''Error loading HIV model/vectorizer: '' e)]
           | Inr v \<Rightarrow> [])) @
     Joblib_load ''models/tb_predictor_model.pkl'' #
     (case jl ''models/tb_predictor_model.pkl'' of
        Inl e \<Rightarrow> [St_error (With_exception ''Error loading TB model: '' e)] | Inr h \<Rightarrow> [])"
  by (simp add: performed_def load_runs)

lemma loaded_world_dict:
  "dict (loaded_world l r) ''hepatitis'' = Some (Some (fixed_classifier l r))"
  "dict (loaded_world l r) ''hiv'' = Some (Some (fixed_classifier l r))"
  "dict (loaded_world l r) ''vectorizer'' = Some (Some example_vectorizer)"
  "dict (loaded_world l r) ''tb'' = Some (Some (fixed_classifier l r))"
  by (simp_all add: loaded_world_def load_models_hepatitis load_models_hiv
      load_models_vectorizer load_models_tb example_loader_def)

subsection \<open>The pages\<close>



lemma hepatitis_calls:
  "dict w ''hepatitis'' = Some (Some m) \<Longrightarrow> features f = Inr fs \<Longrightarrow>
   calls Predict (performed (hepatitis_page f True) w) = [(''hepatitis'', Rows [fs])]"
  by (simp add: hepatitis_page_def py_defs performed_def split: sum.splits)


lemma map_bool_defined:
  "v \<in> {''False'', ''True'', ''Unknown''} \<Longrightarrow> \<exists>n. map_bool v = Inr n"
  by (auto simp: map_bool_def)

lemma features_value:
  "map_bool (steroid f) = Inr a1 \<Longrightarrow> map_bool (antivirals f) = Inr a2 \<Longrightarrow>
   map_bool (fatigue f) = Inr a3 \<Longrightarrow> map_bool (anorexia f) = Inr a4 \<Longrightarrow>
   map_bool (liver_big f) = Inr a5 \<Longrightarrow> map_bool (spleen_palpable f) = Inr a6 \<Longrightarrow>
   map_bool (spiders f) = Inr a7 \<Longrightarrow> map_bool (ascites f) = Inr a8 \<Longrightarrow>
   map_bool (varices f) = Inr a9 \<Longrightarrow> map_bool (histology f) = Inr a10 \<Longrightarrow>
   features f = Inr [PyInt (age f), PyInt (map_sex (sex f)), PyInt a1, PyInt a2, PyInt a3,
     PyInt a4, PyInt a5, PyInt a6, PyInt a7, PyInt a8, PyInt a9, PyInt a10,
     PyFloat (bilirubin f), PyInt (alk_phos f), PyInt (sgot f), PyFloat (albumin f),
     PyInt (protime f)]"
  by (simp add: features_def py_int_def py_float_def encoded_def)

lemma example_features:
  "features example_form =
     Inr [PyInt 40, PyInt 0, PyInt 0, PyInt 0, PyInt 0, PyInt 0, PyInt 0, PyInt 0, PyInt 1,
          PyInt (- 1), PyInt 0, PyInt 0, PyFloat 1, PyInt 85, PyInt 25, PyFloat 4, PyInt 85]"
  by (simp add: features_def example_form_def py_int_def py_float_def encoded_def
      map_bool_def map_sex_def)

lemma hiv_unavailable_cases:
  "hiv_unavailable w =
     (case dict w ''hiv'' of None \<Rightarrow> Inl (KeyError ''hiv'')
      | Some None \<Rightarrow> Inr True
      | Some (Some m) \<Rightarrow> (case dict w ''vectorizer'' of None \<Rightarrow> Inl (KeyError ''vectorizer'')
          | Some None \<Rightarrow> Inr True | Some (Some v) \<Rightarrow> Inr False), w)"
  by (simp add: hiv_unavailable_def py_defs split: option.splits)

lemma hiv_empty:
  "dict w ''hiv'' = Some (Some m) \<Longrightarrow> dict w ''vectorizer'' = Some (Some v) \<Longrightarrow>
   hiv_page [] True w =
     (Inr (), w\<lparr>trace := trace w @ [St_warning (Plain ''Please select symptoms'')]\<rparr>)"
  by (simp add: hiv_page_def hiv_unavailable_cases bind_py_def st_warning_def emit_def)

lemma hiv_run:
  "dict w ''hiv'' = Some (Some m) \<Longrightarrow> dict w ''vectorizer'' = Some (Some v) \<Longrightarrow>
   selected \<noteq> [] \<Longrightarrow>
   transform v (Texts [join '', '' selected]) = Inr vec \<Longrightarrow>
   predict m (Matrix vec) = Inr ys \<Longrightarrow> subscript ys 0 = Inr pred \<Longrightarrow>
   predict_proba m (Matrix vec) = Inr rows \<Longrightarrow> subscript rows 0 = Inr row \<Longrightarrow>
   subscript row pred = Inr p \<Longrightarrow>
   hiv_page selected True w =
     (Inr (), w\<lparr>trace := trace w @
        [Invoke ''vectorizer'' Transform (Texts [join '', '' selected]),
         Invoke ''hiv'' Predict (Matrix vec),
         Invoke ''hiv'' Predict_proba (Matrix vec),
         if pred = 1 then St_error (With_confidence ''High Risk'' p)
         else St_success (With_confidence ''Low Risk'' p)]\<rparr>)"
  by (simp add: hiv_page_def hiv_unavailable_cases py_defs)

lemma hiv_transform_calls:
  "dict w ''hiv'' = Some (Some m) \<Longrightarrow> dict w ''vectorizer'' = Some (Some v) \<Longrightarrow>
   selected \<noteq> [] \<Longrightarrow>
   calls Transform (performed (hiv_page selected True) w) =
     [(''vectorizer'', Texts [join '', '' selected])]"
  by (simp add: hiv_page_def hiv_unavailable_cases py_defs performed_def split: sum.splits)

lemma hiv_calls_only_if:
  "calls meth (performed (hiv_page selected button) w) \<noteq> [] \<Longrightarrow>
   (\<exists>m v. dict w ''hiv'' = Some (Some m) \<and> dict w ''vectorizer'' = Some (Some v)) \<and>
   selected \<noteq> [] \<and> button"
  by (simp add: hiv_page_def hiv_unavailable_cases py_defs performed_def
      split: sum.splits option.splits if_splits)

lemma tb_loop_map:
  "tb_loop answer ss data = data @ map (\<lambda>s. if answer s = ''Present'' then 1 else 0) ss"
  by (induction ss arbitrary: data) simp_all

lemma tb_absent:
  "dict w ''tb'' = Some None \<Longrightarrow>
   tb_page answer button w = (Inr (), w\<lparr>trace := trace w @ [St_error (Plain ''TB model not found.'')]\<rparr>)"
  by (simp add: tb_page_def py_defs)

lemma tb_run:
  "dict w ''tb'' = Some (Some m) \<Longrightarrow>
   predict m (Rows [map PyInt (tb_data answer)]) = Inr ys \<Longrightarrow> subscript ys 0 = Inr pred \<Longrightarrow>
   predict_proba m (Rows [map PyInt (tb_data answer)]) = Inr rows \<Longrightarrow>
   subscript rows 0 = Inr row \<Longrightarrow> subscript row pred = Inr p \<Longrightarrow>
   tb_page answer True w =
     (Inr (), w\<lparr>trace := trace w @
        [Invoke ''tb'' Predict (Rows [map PyInt (tb_data answer)]),
         Invoke ''tb'' Predict_proba (Rows [map PyInt (tb_data answer)]),
         if pred = 1 then St_error (With_confidence ''High TB Risk'' p)
         else St_success (With_confidence ''Low TB Risk'' p)]\<rparr>)"
  by (simp add: tb_page_def py_defs)


lemma subscript_head: "subscript (x # xs) 0 = Inr x"
  by (simp add: subscript_def)

lemma subscript_cases:
  "subscript xs i =
     (if 0 \<le> i \<and> i < int (length xs) then Inr (xs ! nat i)
      else if - int (length xs) \<le> i \<and> i < 0 then Inr (xs ! nat (int (length xs) + i))
      else Inl IndexError)"
  by (simp add: subscript_def)

lemma hiv_indexing:
  "dict w ''hiv'' = Some (Some m) \<Longrightarrow> dict w ''vectorizer'' = Some (Some v) \<Longrightarrow>
   selected \<noteq> [] \<Longrightarrow>
   transform v (Texts [join '', '' selected]) = Inr vec \<Longrightarrow>
   predict m (Matrix vec) = Inr (pred # ys) \<Longrightarrow>
   predict_proba m (Matrix vec) = Inr (row # rows) \<Longrightarrow>
   hiv_page selected True w =
     (case subscript row pred of
        Inl e \<Rightarrow>
          (Inl e, w\<lparr>trace := trace w @
             [Invoke ''vectorizer'' Transform (Texts [join '', '' selected]),
              Invoke ''hiv'' Predict (Matrix vec),
              Invoke ''hiv'' Predict_proba (Matrix vec)]\<rparr>)
      | Inr p \<Rightarrow>
          (Inr (), w\<lparr>trace := trace w @
             [Invoke ''vectorizer'' Transform (Texts [join '', '' selected]),
              Invoke ''hiv'' Predict (Matrix vec),
              Invoke ''hiv'' Predict_proba (Matrix vec),
              if pred = 1 then St_error (With_confidence ''High Risk'' p)
              else St_success (With_confidence ''Low Risk'' p)]\<rparr>))"
  by (simp add: hiv_page_def hiv_unavailable_cases py_defs subscript_head split: sum.splits)

lemma tb_indexing:
  "dict w ''tb'' = Some (Some m) \<Longrightarrow>
   predict m (Rows [map PyInt (tb_data answer)]) = Inr (pred # ys) \<Longrightarrow>
   predict_proba m (Rows [map PyInt (tb_data answer)]) = Inr (row # rows) \<Longrightarrow>
   tb_page answer True w =
     (case subscript row pred of
        Inl e \<Rightarrow>
          (Inl e, w\<lparr>trace := trace w @
             [Invoke ''tb'' Predict (Rows [map PyInt (tb_data answer)]),
              Invoke ''tb'' Predict_proba (Rows [map PyInt (tb_data answer)])]\<rparr>)
      | Inr p \<Rightarrow>
          (Inr (), w\<lparr>trace := trace w @
             [Invoke ''tb'' Predict (Rows [map PyInt (tb_data answer)]),
              Invoke ''tb'' Predict_proba (Rows [map PyInt (tb_data answer)]),
              if pred = 1 then St_error (With_confidence ''High TB Risk'' p)
              else St_success (With_confidence ''Low TB Risk'' p)]\<rparr>))"
  by (simp add: tb_page_def py_defs subscript_head split: sum.splits)

lemma hiv_shown:
  assumes "dict w ''hiv'' = Some (Some m)" and "dict w ''vectorizer'' = Some (Some v)"
    and "selected \<noteq> []" and "transform v (Texts [join '', '' selected]) = Inr vec"
    and "predict m (Matrix vec) = Inr (pred # ys)"
    and "predict_proba m (Matrix vec) = Inr (row # rows)"
  shows "messages (performed (hiv_page selected True) w) =
       (case subscript row pred of Inl e \<Rightarrow> []
        | Inr p \<Rightarrow> [if pred = 1 then St_error (With_confidence ''High Risk'' p)
                    else St_success (With_confidence ''Low Risk'' p)])"
    and "confidences (performed (hiv_page selected True) w) =
       (case subscript row pred of Inl e \<Rightarrow> [] | Inr p \<Rightarrow> [p])"
    and "fst (hiv_page selected True w) =
       (case subscript row pred of Inl e \<Rightarrow> Inl e | Inr p \<Rightarrow> Inr ())"
  by (simp_all add: performed_def hiv_indexing [OF assms] split: sum.splits)

lemma tb_shown:
  assumes "dict w ''tb'' = Some (Some m)"
    and "predict m (Rows [map PyInt (tb_data answer)]) = Inr (pred # ys)"
    and "predict_proba m (Rows [map PyInt (tb_data answer)]) = Inr (row # rows)"
  shows "messages (performed (tb_page answer True) w) =
       (case subscript row pred of Inl e \<Rightarrow> []
        | Inr p \<Rightarrow> [if pred = 1 then St_error (With_confidence ''High TB Risk'' p)
                    else St_success (With_confidence ''Low TB Risk'' p)])"
    and "confidences (performed (tb_page answer True) w) =
       (case subscript row pred of Inl e \<Rightarrow> [] | Inr p \<Rightarrow> [p])"
    and "fst (tb_page answer True w) =
       (case subscript row pred of Inl e \<Rightarrow> Inl e | Inr p \<Rightarrow> Inr ())"
  by (simp_all add: performed_def tb_indexing [OF assms] split: sum.splits)

lemma fixed_classifier_answers:
  "predict (fixed_classifier (l # ls) (r # rs)) x = Inr (l # ls)"
  "predict_proba (fixed_classifier (l # ls) (r # rs)) x = Inr (r # rs)"
  by (simp_all add: fixed_classifier_def)

lemma example_vectorizer_fever:
  "transform example_vectorizer (Texts [join '', '' [''Fever'']]) = Inr ''Fever''"
  by (simp add: example_vectorizer_def)


section \<open>The claims\<close>

subsection \<open>C1: the order of the hepatitis feature vector\<close>

text \<open>
  C1, as stated, fails. With spiders "True", ascites "Unknown" and the liver and spleen
  fields "False", the vector passed to \<^verbatim>\<open>predict\<close> carries the liver and spleen codes
  at positions 6 and 7 and the spiders and ascites codes at positions 8 and 9; the order the
  specification lists has them the other way round.
\<close>

theorem hepatitis_spec_order_counterexample:
  "calls Predict (performed (hepatitis_page example_form True) (loaded_world [1] [])) =
     [(''hepatitis'',
       Rows [[PyInt 40, PyInt 0, PyInt 0, PyInt 0, PyInt 0, PyInt 0, PyInt 0, PyInt 0, PyInt 1,
              PyInt (- 1), PyInt 0, PyInt 0, PyFloat 1, PyInt 85, PyInt 25, PyFloat 4,
              PyInt 85]])] \<and>
   spec_order_features example_form =
     Inr [PyInt 40, PyInt 0, PyInt 0, PyInt 0, PyInt 0, PyInt 0, PyInt 1, PyInt (- 1), PyInt 0,
          PyInt 0, PyInt 0, PyInt 0, PyFloat 1, PyInt 85, PyInt 25, PyFloat 4, PyInt 85] \<and>
   features example_form \<noteq> spec_order_features example_form"
proof -
  have a: "spec_order_features example_form =
     Inr [PyInt 40, PyInt 0, PyInt 0, PyInt 0, PyInt 0, PyInt 0, PyInt 1, PyInt (- 1), PyInt 0,
          PyInt 0, PyInt 0, PyInt 0, PyFloat 1, PyInt 85, PyInt 25, PyFloat 4, PyInt 85]"
    by (simp add: spec_order_features_def example_form_def py_int_def py_float_def encoded_def
        map_bool_def map_sex_def)
  have b: "features example_form \<noteq> spec_order_features example_form"
    by (simp add: a example_features)
  show ?thesis
    using hepatitis_calls [OF loaded_world_dict(1) example_features] a b by simp
qed

text \<open>
  C1, amended: when the hepatitis model is present and every select box holds one of its
  options, a submission calls \<^verbatim>\<open>predict\<close> once, on one row of 17 values in the order age,
  sex, steroid, antivirals, fatigue, anorexia, liver-enlarged, spleen-palpable, spiders,
  ascites, varices, histology, bilirubin, alkaline phosphatase, SGOT, albumin, prothrombin
  time; the value at each position is the encoding of the field at that position in this
  order.
\<close>

theorem hepatitis_vector_code_order:
  assumes present: "dict w ''hepatitis'' = Some (Some m)"
    and choices: "set [steroid f, antivirals f, fatigue f, anorexia f, liver_big f,
        spleen_palpable f, spiders f, ascites f, varices f, histology f]
      \<subseteq> {''False'', ''True'', ''Unknown''}"
  shows "\<exists>fs. calls Predict (performed (hepatitis_page f True) w) = [(''hepatitis'', Rows [fs])] \<and>
     length fs = 17 \<and>
     Inr (fs ! 0) = py_int (age f) \<and>
     Inr (fs ! 1) = py_int (map_sex (sex f)) \<and>
     Inr (fs ! 2) = encoded (map_bool (steroid f)) \<and>
     Inr (fs ! 3) = encoded (map_bool (antivirals f)) \<and>
     Inr (fs ! 4) = encoded (map_bool (fatigue f)) \<and>
     Inr (fs ! 5) = encoded (map_bool (anorexia f)) \<and>
     Inr (fs ! 6) = encoded (map_bool (liver_big f)) \<and>
     Inr (fs ! 7) = encoded (map_bool (spleen_palpable f)) \<and>
     Inr (fs ! 8) = encoded (map_bool (spiders f)) \<and>
     Inr (fs ! 9) = encoded (map_bool (ascites f)) \<and>
     Inr (fs ! 10) = encoded (map_bool (varices f)) \<and>
     Inr (fs ! 11) = encoded (map_bool (histology f)) \<and>
     Inr (fs ! 12) = py_float (bilirubin f) \<and>
     Inr (fs ! 13) = py_int (alk_phos f) \<and>
     Inr (fs ! 14) = py_int (sgot f) \<and>
     Inr (fs ! 15) = py_float (albumin f) \<and>
     Inr (fs ! 16) = py_int (protime f)"
proof -
  have mem: "steroid f \<in> {''False'', ''True'', ''Unknown''}"
    "antivirals f \<in> {''False'', ''True'', ''Unknown''}"
    "fatigue f \<in> {''False'', ''True'', ''Unknown''}"
    "anorexia f \<in> {''False'', ''True'', ''Unknown''}"
    "liver_big f \<in> {''False'', ''True'', ''Unknown''}"
    "spleen_palpable f \<in> {''False'', ''True'', ''Unknown''}"
    "spiders f \<in> {''False'', ''True'', ''Unknown''}"
    "ascites f \<in> {''False'', ''True'', ''Unknown''}"
    "varices f \<in> {''False'', ''True'', ''Unknown''}"
    "histology f \<in> {''False'', ''True'', ''Unknown''}"
    using choices by simp_all
  obtain a1 where e1: "map_bool (steroid f) = Inr a1"
    using map_bool_defined [OF mem(1)] by blast
  obtain a2 where e2: "map_bool (antivirals f) = Inr a2"
    using map_bool_defined [OF mem(2)] by blast
  obtain a3 where e3: "map_bool (fatigue f) = Inr a3"
    using map_bool_defined [OF mem(3)] by blast
  obtain a4 where e4: "map_bool (anorexia f) = Inr a4"
    using map_bool_defined [OF mem(4)] by blast
  obtain a5 where e5: "map_bool (liver_big f) = Inr a5"
    using map_bool_defined [OF mem(5)] by blast
  obtain a6 where e6: "map_bool (spleen_palpable f) = Inr a6"
    using map_bool_defined [OF mem(6)] by blast
  obtain a7 where e7: "map_bool (spiders f) = Inr a7"
    using map_bool_defined [OF mem(7)] by blast
  obtain a8 where e8: "map_bool (ascites f) = Inr a8"
    using map_bool_defined [OF mem(8)] by blast
  obtain a9 where e9: "map_bool (varices f) = Inr a9"
    using map_bool_defined [OF mem(9)] by blast
  obtain a10 where e10: "map_bool (histology f) = Inr a10"
    using map_bool_defined [OF mem(10)] by blast
  note enc = e1 e2 e3 e4 e5 e6 e7 e8 e9 e10
  note fv = features_value [OF enc]
  have c: "calls Predict (performed (hepatitis_page f True) w) =
      [(''hepatitis'', Rows [[PyInt (age f), PyInt (map_sex (sex f)), PyInt a1, PyInt a2,
        PyInt a3, PyInt a4, PyInt a5, PyInt a6, PyInt a7, PyInt a8, PyInt a9, PyInt a10,
        PyFloat (bilirubin f), PyInt (alk_phos f), PyInt (sgot f), PyFloat (albumin f),
        PyInt (protime f)]])]"
    by (rule hepatitis_calls [OF present fv])
  show ?thesis
    apply (rule exI)
    apply (rule conjI)
     apply (rule c)
    apply (simp add: enc py_int_def py_float_def encoded_def)
    done
qed

text \<open>
  C1, amended, at a concrete submission: the form with spiders "True" and ascites
  "Unknown" puts the liver code 0 at position 6 and the spiders code 1 at position 8.
\<close>

theorem hepatitis_vector_code_order_witness:
  "dict (loaded_world [1] []) ''hepatitis'' = Some (Some (fixed_classifier [1] [])) \<and>
   set [steroid example_form, antivirals example_form, fatigue example_form,
        anorexia example_form, liver_big example_form, spleen_palpable example_form,
        spiders example_form, ascites example_form, varices example_form,
        histology example_form] \<subseteq> {''False'', ''True'', ''Unknown''} \<and>
   (\<exists>fs. calls Predict (performed (hepatitis_page example_form True) (loaded_world [1] [])) =
        [(''hepatitis'', Rows [fs])] \<and>
      length fs = 17 \<and> fs ! 6 = PyInt 0 \<and> fs ! 8 = PyInt 1 \<and> fs ! 9 = PyInt (- 1))"
proof -
  have h1: "dict (loaded_world [1] []) ''hepatitis'' = Some (Some (fixed_classifier [1] []))"
    by (rule loaded_world_dict(1))
  have h2: "set [steroid example_form, antivirals example_form, fatigue example_form,
        anorexia example_form, liver_big example_form, spleen_palpable example_form,
        spiders example_form, ascites example_form, varices example_form,
        histology example_form] \<subseteq> {''False'', ''True'', ''Unknown''}"
    by (simp add: example_form_def)
  from hepatitis_vector_code_order [OF h1 h2] obtain fs where
    c: "calls Predict (performed (hepatitis_page example_form True) (loaded_world [1] [])) =
        [(''hepatitis'', Rows [fs])]"
    and l: "length fs = 17"
    and p6: "Inr (fs ! 6) = (encoded (map_bool (liver_big example_form)) :: py_error + real num)"
    and p8: "Inr (fs ! 8) = (encoded (map_bool (spiders example_form)) :: py_error + real num)"
    and p9: "Inr (fs ! 9) = (encoded (map_bool (ascites example_form)) :: py_error + real num)"
    by blast
  have q6: "fs ! 6 = PyInt 0"
    using p6 by (simp add: example_form_def encoded_def map_bool_def)
  have q8: "fs ! 8 = PyInt 1"
    using p8 by (simp add: example_form_def encoded_def map_bool_def)
  have q9: "fs ! 9 = PyInt (- 1)"
    using p9 by (simp add: example_form_def encoded_def map_bool_def)
  from c l q6 q8 q9 have "\<exists>fs. calls Predict (performed (hepatitis_page example_form True)
        (loaded_world [1] [])) = [(''hepatitis'', Rows [fs])] \<and>
      length fs = 17 \<and> fs ! 6 = PyInt 0 \<and> fs ! 8 = PyInt 1 \<and> fs ! 9 = PyInt (- 1)"
    by blast
  with h1 h2 show ?thesis by (intro conjI)
qed

subsection \<open>C2: \<open>map_bool\<close>\<close>

text \<open>
  C2: \<open>map_bool\<close> gives 0 for "False", 1 for "True" and -1 for "Unknown"; for every other
  input it raises \<^verbatim>\<open>KeyError\<close> and returns no value.
\<close>

theorem map_bool_table:
  "map_bool ''False'' = Inr 0 \<and> map_bool ''True'' = Inr 1 \<and> map_bool ''Unknown'' = Inr (- 1) \<and>
   (val \<notin> {''False'', ''True'', ''Unknown''} \<longrightarrow> map_bool val = Inl (KeyError val))"
  by (simp add: map_bool_def)

text \<open>C2 at the input "Maybe", which is none of the three keys.\<close>

theorem map_bool_table_witness:
  "''Maybe'' \<notin> {''False'', ''True'', ''Unknown''} \<and> map_bool ''Maybe'' = Inl (KeyError ''Maybe'')"
  using map_bool_table [of "''Maybe''"] by simp

subsection \<open>C3: \<open>map_sex\<close>\<close>

text \<open>
  C3: \<open>map_sex\<close> gives 0 for "male" and 1 for every other string, "female" among them. It
  has a value at every string: the conditional expression of the source has no raising
  branch, so the function returns a plain integer.
\<close>

theorem map_sex_total:
  "map_sex ''male'' = 0 \<and> map_sex ''female'' = 1 \<and> (val \<noteq> ''male'' \<longrightarrow> map_sex val = 1)"
  by (simp add: map_sex_def)

text \<open>C3 at a misspelt input.\<close>

theorem map_sex_total_witness:
  "''femail'' \<noteq> ''male'' \<and> map_sex ''femail'' = 1"
  using map_sex_total [of "''femail''"] by simp

subsection \<open>C4: loading never raises\<close>

text \<open>
  C4, as stated, fails. When the load of the HIV model fails, the load of the vectorizer,
  which would have succeeded, is not attempted: the two loads share one \<^verbatim>\<open>try\<close> block.
\<close>

theorem load_models_skip_counterexample:
  "hiv_missing_loader ''models/vectorizer.pkl'' = Inr (Some example_vectorizer) \<and>
   performed (load_models hiv_missing_loader) empty_world =
     [Joblib_load ''models/hepatitis_model.pkl'', Joblib_load ''models/hiv_model.pkl'',
      St_error (With_exception ''Error loading HIV model/vectorizer: '' (Exception ''No such file'')),
      Joblib_load ''models/tb_predictor_model.pkl''] \<and>
   Joblib_load ''models/vectorizer.pkl''
     \<notin> set (performed (load_models hiv_missing_loader) empty_world)"
  by (simp add: load_models_performed hiv_missing_loader_def example_loader_def)

text \<open>
  C4, amended: \<open>load_models\<close> never raises and returns the dictionary, which maps each of
  the four keys to a loaded object or to \<^verbatim>\<open>None\<close>. The loads of the hepatitis model, of
  the HIV model and of the tuberculosis model are always attempted, whatever failed
  before; the load of the vectorizer is attempted when the load of the HIV model
  succeeded. A failed load is caught: the entry of that model (for the HIV model and the
  vectorizer, both entries) is \<^verbatim>\<open>None\<close> and one diagnostic with the exception is shown.
\<close>

theorem load_models_groups:
  "fst (load_models jl w) = Inr (dict (snd (load_models jl w))) \<and>
   dom (dict (snd (load_models jl w))) = {''hepatitis'', ''hiv'', ''vectorizer'', ''tb''} \<and>
   dict (snd (load_models jl w)) ''hepatitis'' =
     Some (case jl ''models/hepatitis_model.pkl'' of Inl e \<Rightarrow> None | Inr h \<Rightarrow> h) \<and>
   dict (snd (load_models jl w)) ''hiv'' =
     Some (case jl ''models/hiv_model.pkl'' of Inl e \<Rightarrow> None
           | Inr h \<Rightarrow> (case jl ''models/vectorizer.pkl'' of Inl e \<Rightarrow> None | Inr v \<Rightarrow> h)) \<and>
   dict (snd (load_models jl w)) ''vectorizer'' =
     Some (case jl ''models/hiv_model.pkl'' of Inl e \<Rightarrow> None
           | Inr h \<Rightarrow> (case jl ''models/vectorizer.pkl'' of Inl e \<Rightarrow> None | Inr v \<Rightarrow> v)) \<and>
   dict (snd (load_models jl w)) ''tb'' =
     Some (case jl ''models/tb_predictor_model.pkl'' of Inl e \<Rightarrow> None | Inr h \<Rightarrow> h) \<and>
   performed (load_models jl) w =
     Joblib_load ''models/hepatitis_model.pkl'' #
     (case jl ''models/hepatitis_model.pkl'' of
        Inl e \<Rightarrow> [St_error (With_exception ''Error loading Hepatitis model: '' e)]
      | Inr h \<Rightarrow> []) @
     Joblib_load ''models/hiv_model.pkl'' #
     (case jl ''models/hiv_model.pkl'' of
        Inl e \<Rightarrow> [St_error (With_exception ''Error loading HIV model/vectorizer: '' e)]
      | Inr h \<Rightarrow> Joblib_load ''models/vectorizer.pkl'' #
          (case jl ''models/vectorizer.pkl'' of
             Inl e \<Rightarrow> [St_error (With_exception ''Error loading HIV model/vectorizer: '' e)]
           | Inr v \<Rightarrow> [])) @
     Joblib_load ''models/tb_predictor_model.pkl'' #
     (case jl ''models/tb_predictor_model.pkl'' of
        Inl e \<Rightarrow> [St_error (With_exception ''Error loading TB model: '' e)]
      | Inr h \<Rightarrow> [])"
proof (intro conjI)
  show "fst (load_models jl w) = Inr (dict (snd (load_models jl w)))"
    by (rule load_models_never_raises)
  show "dom (dict (snd (load_models jl w))) = {''hepatitis'', ''hiv'', ''vectorizer'', ''tb''}"
    by (rule load_models_dom)
qed (rule load_models_hepatitis load_models_hiv load_models_vectorizer load_models_tb
    load_models_performed)+

text \<open>
  C4, amended, where the HIV model is missing: no exception, the two HIV entries are
  \<^verbatim>\<open>None\<close>, the hepatitis and tuberculosis models are loaded.
\<close>

theorem load_models_groups_witness:
  "fst (load_models hiv_missing_loader empty_world) =
     Inr (dict (snd (load_models hiv_missing_loader empty_world))) \<and>
   dict (snd (load_models hiv_missing_loader empty_world)) ''hepatitis'' =
     Some (Some (fixed_classifier [0] [[3 / 10, 7 / 10]])) \<and>
   dict (snd (load_models hiv_missing_loader empty_world)) ''hiv'' = Some None \<and>
   dict (snd (load_models hiv_missing_loader empty_world)) ''vectorizer'' = Some None \<and>
   dict (snd (load_models hiv_missing_loader empty_world)) ''tb'' =
     Some (Some (fixed_classifier [0] [[3 / 10, 7 / 10]]))"
  using load_models_groups [of hiv_missing_loader empty_world]
  by (simp add: hiv_missing_loader_def example_loader_def)

subsection \<open>C5: the HIV model and its vectorizer\<close>




subsection \<open>C6: the empty selection\<close>

text \<open>
  C6: with the HIV model and the vectorizer present, pressing the button with nothing
  selected shows the warning and nothing else: no method of a loaded object is called.
  The page calls a method only when something is selected (and the button pressed), and
  with something selected it does call the vectorizer.
\<close>

theorem hiv_empty_selection_rejected:
  assumes "dict w ''hiv'' = Some (Some m)" and "dict w ''vectorizer'' = Some (Some v)"
  shows "hiv_page [] True w =
       (Inr (), w\<lparr>trace := trace w @ [St_warning (Plain ''Please select symptoms'')]\<rparr>) \<and>
     performed (hiv_page [] True) w = [St_warning (Plain ''Please select symptoms'')] \<and>
     (calls meth (performed (hiv_page selected button) w) \<noteq> [] \<longrightarrow> selected \<noteq> [] \<and> button) \<and>
     (selected \<noteq> [] \<longrightarrow> calls Transform (performed (hiv_page selected True) w) \<noteq> [])"
proof (intro conjI)
  show "hiv_page [] True w =
       (Inr (), w\<lparr>trace := trace w @ [St_warning (Plain ''Please select symptoms'')]\<rparr>)"
    by (rule hiv_empty [OF assms])
  then show "performed (hiv_page [] True) w = [St_warning (Plain ''Please select symptoms'')]"
    by (simp add: performed_def)
  show "calls meth (performed (hiv_page selected button) w) \<noteq> [] \<longrightarrow> selected \<noteq> [] \<and> button"
    using hiv_calls_only_if [of meth selected button w] by blast
  show "selected \<noteq> [] \<longrightarrow> calls Transform (performed (hiv_page selected True) w) \<noteq> []"
    by (simp add: hiv_transform_calls [OF assms])
qed

text \<open>C6 with both objects loaded: nothing selected, and "Fever" selected.\<close>

theorem hiv_empty_selection_rejected_witness:
  "dict (loaded_world [0] [[3 / 10, 7 / 10]]) ''hiv'' = Some (Some (fixed_classifier [0] [[3 / 10, 7 / 10]])) \<and>
   dict (loaded_world [0] [[3 / 10, 7 / 10]]) ''vectorizer'' = Some (Some example_vectorizer) \<and>
   performed (hiv_page [] True) (loaded_world [0] [[3 / 10, 7 / 10]]) =
     [St_warning (Plain ''Please select symptoms'')] \<and>
   [''Fever''] \<noteq> [] \<and>
   calls Transform (performed (hiv_page [''Fever''] True) (loaded_world [0] [[3 / 10, 7 / 10]])) \<noteq> []"
proof -
  have h2: "dict (loaded_world [0] [[3 / 10, 7 / 10]]) ''hiv'' =
      Some (Some (fixed_classifier [0] [[3 / 10, 7 / 10]]))"
    by (rule loaded_world_dict(2))
  have h3: "dict (loaded_world [0] [[3 / 10, 7 / 10]]) ''vectorizer'' = Some (Some example_vectorizer)"
    by (rule loaded_world_dict(3))
  note t = hiv_empty_selection_rejected [OF h2 h3, where meth = Transform
      and selected = "[''Fever'']" and button = True]
  from t h2 h3 show ?thesis by simp
qed

subsection \<open>C7: what the vectorizer receives\<close>

text \<open>
  C7: with the HIV model and the vectorizer present and a selection that is not empty,
  the page calls \<^verbatim>\<open>transform\<close> once, on the list holding one string: the selected names
  joined with a comma and a space, that is the first name followed by each further name
  with ", " before it.
\<close>

theorem hiv_vectorizer_input:
  assumes "dict w ''hiv'' = Some (Some m)" and "dict w ''vectorizer'' = Some (Some v)"
    and "selected = name # names"
  shows "calls Transform (performed (hiv_page selected True) w) =
       [(''vectorizer'', Texts [join '', '' selected])] \<and>
     join '', '' selected = name @ concat (map (\<lambda>s. '', '' @ s) names)"
  using assms(3) hiv_transform_calls [OF assms(1) assms(2), of selected]
  by (simp add: join_cons)

text \<open>C7 at the selection of "Fever" and "Fatigue": the string is "Fever, Fatigue".\<close>

theorem hiv_vectorizer_input_witness:
  "dict (loaded_world [0] [[3 / 10, 7 / 10]]) ''hiv'' = Some (Some (fixed_classifier [0] [[3 / 10, 7 / 10]])) \<and>
   dict (loaded_world [0] [[3 / 10, 7 / 10]]) ''vectorizer'' = Some (Some example_vectorizer) \<and>
   calls Transform (performed (hiv_page [''Fever'', ''Fatigue''] True)
       (loaded_world [0] [[3 / 10, 7 / 10]])) =
     [(''vectorizer'', Texts [''Fever, Fatigue''])]"
proof -
  have h2: "dict (loaded_world [0] [[3 / 10, 7 / 10]]) ''hiv'' =
      Some (Some (fixed_classifier [0] [[3 / 10, 7 / 10]]))"
    by (rule loaded_world_dict(2))
  have h3: "dict (loaded_world [0] [[3 / 10, 7 / 10]]) ''vectorizer'' = Some (Some example_vectorizer)"
    by (rule loaded_world_dict(3))
  have h4: "[''Fever'', ''Fatigue''] = ''Fever'' # [''Fatigue'']"
    by simp
  from hiv_vectorizer_input [OF h2 h3 h4] h2 h3 show ?thesis by simp
qed

subsection \<open>C8: the confidence reported\<close>

text \<open>
  C8: on the HIV page and on the tuberculosis page, when the model predicts the label
  \<open>pred\<close> (the first entry of what \<^verbatim>\<open>predict\<close> returns), its probability output has the
  first row \<open>row\<close> and \<open>pred\<close> is an index of the row, the one confidence reported is the
  entry of the row at the index \<open>pred\<close>: the entry picked by the predicted label, whatever
  the other entries are.
\<close>

theorem confidence_of_predicted_label:
  "(dict w ''hiv'' = Some (Some m) \<and> dict w ''vectorizer'' = Some (Some v) \<and> selected \<noteq> [] \<and>
    transform v (Texts [join '', '' selected]) = Inr vec \<and>
    predict m (Matrix vec) = Inr (pred # ys) \<and>
    predict_proba m (Matrix vec) = Inr (row # rows) \<and>
    0 \<le> pred \<and> pred < int (length row) \<longrightarrow>
    confidences (performed (hiv_page selected True) w) = [row ! nat pred]) \<and>
   (dict w ''tb'' = Some (Some t) \<and>
    predict t (Rows [map PyInt (tb_data answer)]) = Inr (pred' # ys') \<and>
    predict_proba t (Rows [map PyInt (tb_data answer)]) = Inr (row' # rows') \<and>
    0 \<le> pred' \<and> pred' < int (length row') \<longrightarrow>
    confidences (performed (tb_page answer True) w) = [row' ! nat pred'])"
proof (intro conjI impI)
  assume h: "dict w ''hiv'' = Some (Some m) \<and> dict w ''vectorizer'' = Some (Some v) \<and>
    selected \<noteq> [] \<and> transform v (Texts [join '', '' selected]) = Inr vec \<and>
    predict m (Matrix vec) = Inr (pred # ys) \<and>
    predict_proba m (Matrix vec) = Inr (row # rows) \<and>
    0 \<le> pred \<and> pred < int (length row)"
  then have "confidences (performed (hiv_page selected True) w) =
      (case subscript row pred of Inl e \<Rightarrow> [] | Inr p \<Rightarrow> [p])"
    by (intro hiv_shown(2) [of w m v selected vec pred ys row rows]) simp_all
  with h show "confidences (performed (hiv_page selected True) w) = [row ! nat pred]"
    by (simp add: subscript_cases)
next
  assume h: "dict w ''tb'' = Some (Some t) \<and>
    predict t (Rows [map PyInt (tb_data answer)]) = Inr (pred' # ys') \<and>
    predict_proba t (Rows [map PyInt (tb_data answer)]) = Inr (row' # rows') \<and>
    0 \<le> pred' \<and> pred' < int (length row')"
  then have "confidences (performed (tb_page answer True) w) =
      (case subscript row' pred' of Inl e \<Rightarrow> [] | Inr p \<Rightarrow> [p])"
    by (intro tb_shown(2) [of w t answer pred' ys' row' rows']) simp_all
  with h show "confidences (performed (tb_page answer True) w) = [row' ! nat pred']"
    by (simp add: subscript_cases)
qed

text \<open>
  C8 for a model that predicts label 2 with the probabilities 0.25, 0.5, 0.1 and 0.15:
  both pages report 0.1, the entry at index 2, which is neither the largest probability of
  the row, nor its first or last entry, nor the entry at index 1 of the positive class.
\<close>

theorem confidence_of_predicted_label_witness:
  "dict (loaded_world [2] [[1 / 4, 1 / 2, 1 / 10, 3 / 20]]) ''hiv'' =
     Some (Some (fixed_classifier [2] [[1 / 4, 1 / 2, 1 / 10, 3 / 20]])) \<and>
   dict (loaded_world [2] [[1 / 4, 1 / 2, 1 / 10, 3 / 20]]) ''vectorizer'' =
     Some (Some example_vectorizer) \<and>
   dict (loaded_world [2] [[1 / 4, 1 / 2, 1 / 10, 3 / 20]]) ''tb'' =
     Some (Some (fixed_classifier [2] [[1 / 4, 1 / 2, 1 / 10, 3 / 20]])) \<and>
   (2 :: int) < int (length [1 / 4, 1 / 2, 1 / 10, 3 / 20 :: real]) \<and>
   confidences (performed (hiv_page [''Fever''] True)
       (loaded_world [2] [[1 / 4, 1 / 2, 1 / 10, 3 / 20]])) = [1 / 10] \<and>
   confidences (performed (tb_page (\<lambda>s. ''Absent'') True)
       (loaded_world [2] [[1 / 4, 1 / 2, 1 / 10, 3 / 20]])) = [1 / 10] \<and>
   (1 / 10 :: real) \<noteq> Max (set [1 / 4, 1 / 2, 1 / 10, 3 / 20]) \<and>
   (1 / 10 :: real) \<noteq> [1 / 4, 1 / 2, 1 / 10, 3 / 20] ! 1 \<and>
   (1 / 10 :: real) \<noteq> hd [1 / 4, 1 / 2, 1 / 10, 3 / 20] \<and>
   (1 / 10 :: real) \<noteq> last [1 / 4, 1 / 2, 1 / 10, 3 / 20]"
proof -
  have h2: "dict (loaded_world [2] [[1 / 4, 1 / 2, 1 / 10, 3 / 20]]) ''hiv'' =
      Some (Some (fixed_classifier [2] [[1 / 4, 1 / 2, 1 / 10, 3 / 20]]))"
    by (rule loaded_world_dict(2))
  have h3: "dict (loaded_world [2] [[1 / 4, 1 / 2, 1 / 10, 3 / 20]]) ''vectorizer'' =
      Some (Some example_vectorizer)"
    by (rule loaded_world_dict(3))
  have h4: "dict (loaded_world [2] [[1 / 4, 1 / 2, 1 / 10, 3 / 20]]) ''tb'' =
      Some (Some (fixed_classifier [2] [[1 / 4, 1 / 2, 1 / 10, 3 / 20]]))"
    by (rule loaded_world_dict(4))
  have r: "(2 :: int) < int (length [1 / 4, 1 / 2, 1 / 10, 3 / 20 :: real])"
    by simp
  note t = confidence_of_predicted_label [
      where w = "loaded_world [2] [[1 / 4, 1 / 2, 1 / 10, 3 / 20]]"
      and m = "fixed_classifier [2] [[1 / 4, 1 / 2, 1 / 10, 3 / 20]]" and v = example_vectorizer
      and selected = "[''Fever'']" and vec = "''Fever''" and pred = 2 and ys = "[]"
      and row = "[1 / 4, 1 / 2, 1 / 10, 3 / 20]" and rows = "[]"
      and t = "fixed_classifier [2] [[1 / 4, 1 / 2, 1 / 10, 3 / 20]]"
      and answer = "\<lambda>s. ''Absent''" and pred' = 2 and ys' = "[]"
      and row' = "[1 / 4, 1 / 2, 1 / 10, 3 / 20]" and rows' = "[]"]
  have a: "confidences (performed (hiv_page [''Fever''] True)
      (loaded_world [2] [[1 / 4, 1 / 2, 1 / 10, 3 / 20]])) = [1 / 10]"
    using t h2 h3 example_vectorizer_fever fixed_classifier_answers by simp
  have b: "confidences (performed (tb_page (\<lambda>s. ''Absent'') True)
      (loaded_world [2] [[1 / 4, 1 / 2, 1 / 10, 3 / 20]])) = [1 / 10]"
    using t h4 fixed_classifier_answers by simp
  have c: "(1 / 10 :: real) \<noteq> Max (set [1 / 4, 1 / 2, 1 / 10, 3 / 20])"
    "(1 / 10 :: real) \<noteq> [1 / 4, 1 / 2, 1 / 10, 3 / 20] ! 1"
    "(1 / 10 :: real) \<noteq> hd [1 / 4, 1 / 2, 1 / 10, 3 / 20]"
    "(1 / 10 :: real) \<noteq> last [1 / 4, 1 / 2, 1 / 10, 3 / 20]"
    by simp_all
  from h2 h3 h4 r a b c show ?thesis by (intro conjI)
qed

subsection \<open>C9: the hepatitis page\<close>



subsection \<open>C10: labels other than 1\<close>

text \<open>
  C10, as stated, fails. Lines 128 and 152 take the confidence at the label's index
  before the branch on the label. A model that predicts label 2 and gives a row of two
  probabilities makes both pages raise \<^verbatim>\<open>IndexError\<close>: no message is shown, low-risk or
  other.
\<close>

theorem low_risk_index_counterexample:
  "predict (fixed_classifier [2] [[3 / 10, 7 / 10]]) (Matrix ''Fever'') = Inr [2] \<and>
   predict_proba (fixed_classifier [2] [[3 / 10, 7 / 10]]) (Matrix ''Fever'') =
     Inr [[3 / 10, 7 / 10]] \<and>
   fst (hiv_page [''Fever''] True (loaded_world [2] [[3 / 10, 7 / 10]])) = Inl IndexError \<and>
   messages (performed (hiv_page [''Fever''] True) (loaded_world [2] [[3 / 10, 7 / 10]])) = [] \<and>
   fst (tb_page (\<lambda>s. ''Absent'') True (loaded_world [2] [[3 / 10, 7 / 10]])) = Inl IndexError \<and>
   messages (performed (tb_page (\<lambda>s. ''Absent'') True) (loaded_world [2] [[3 / 10, 7 / 10]])) = []"
proof -
  have s: "subscript [3 / 10, 7 / 10 :: real] 2 = Inl IndexError"
    by (simp add: subscript_def)
  have p: "predict (fixed_classifier [2] [[3 / 10, 7 / 10]]) x = Inr [2]"
    "predict_proba (fixed_classifier [2] [[3 / 10, 7 / 10]]) x = Inr [[3 / 10, 7 / 10]]" for x
    by (simp_all add: fixed_classifier_def)
  have ne: "[''Fever''] \<noteq> []"
    by simp
  note hiv = hiv_shown [OF loaded_world_dict(2) loaded_world_dict(3) ne
      example_vectorizer_fever p(1) p(2)]
  note tb = tb_shown [OF loaded_world_dict(4) p(1) p(2)]
  show ?thesis
    by (simp add: hiv(1) hiv(3) tb(1) tb(3) s p)
qed

text \<open>
  C10, amended: on the HIV page and on the tuberculosis page, when the model predicts the
  label \<open>pred\<close> and the first row of its probability output is \<open>row\<close>: if \<open>pred\<close> is an
  index of the row counted from the front, the one message shown is the high-risk message
  when \<open>pred\<close> is 1 and the low-risk message for every other label, not only for 0, with
  the entry of the row at the index \<open>pred\<close>; if \<open>pred\<close> is negative and an index of the
  row counted from the end, it is the low-risk message with that entry; for every other
  label \<^verbatim>\<open>IndexError\<close> is raised and no message is shown.
\<close>

theorem low_risk_for_indexable_label:
  "(dict w ''hiv'' = Some (Some m) \<and> dict w ''vectorizer'' = Some (Some v) \<and> selected \<noteq> [] \<and>
    transform v (Texts [join '', '' selected]) = Inr vec \<and>
    predict m (Matrix vec) = Inr (pred # ys) \<and>
    predict_proba m (Matrix vec) = Inr (row # rows) \<longrightarrow>
    messages (performed (hiv_page selected True) w) =
      (if 0 \<le> pred \<and> pred < int (length row) then
         [if pred = 1 then St_error (With_confidence ''High Risk'' (row ! nat pred))
          else St_success (With_confidence ''Low Risk'' (row ! nat pred))]
       else if - int (length row) \<le> pred \<and> pred < 0 then
         [St_success (With_confidence ''Low Risk'' (row ! nat (int (length row) + pred)))]
       else []) \<and>
    fst (hiv_page selected True w) =
      (if - int (length row) \<le> pred \<and> pred < int (length row) then Inr ()
       else Inl IndexError)) \<and>
   (dict w ''tb'' = Some (Some t) \<and>
    predict t (Rows [map PyInt (tb_data answer)]) = Inr (pred' # ys') \<and>
    predict_proba t (Rows [map PyInt (tb_data answer)]) = Inr (row' # rows') \<longrightarrow>
    messages (performed (tb_page answer True) w) =
      (if 0 \<le> pred' \<and> pred' < int (length row') then
         [if pred' = 1 then St_error (With_confidence ''High TB Risk'' (row' ! nat pred'))
          else St_success (With_confidence ''Low TB Risk'' (row' ! nat pred'))]
       else if - int (length row') \<le> pred' \<and> pred' < 0 then
         [St_success (With_confidence ''Low TB Risk'' (row' ! nat (int (length row') + pred')))]
       else []) \<and>
    fst (tb_page answer True w) =
      (if - int (length row') \<le> pred' \<and> pred' < int (length row') then Inr ()
       else Inl IndexError))"
proof (intro conjI impI)
  assume h: "dict w ''hiv'' = Some (Some m) \<and> dict w ''vectorizer'' = Some (Some v) \<and>
    selected \<noteq> [] \<and> transform v (Texts [join '', '' selected]) = Inr vec \<and>
    predict m (Matrix vec) = Inr (pred # ys) \<and>
    predict_proba m (Matrix vec) = Inr (row # rows)"
  then have a: "messages (performed (hiv_page selected True) w) =
       (case subscript row pred of Inl e \<Rightarrow> []
        | Inr p \<Rightarrow> [if pred = 1 then St_error (With_confidence ''High Risk'' p)
                    else St_success (With_confidence ''Low Risk'' p)])"
    by (intro hiv_shown(1) [of w m v selected vec pred ys row rows]) simp_all
  from h have b: "fst (hiv_page selected True w) =
       (case subscript row pred of Inl e \<Rightarrow> Inl e | Inr p \<Rightarrow> Inr ())"
    by (intro hiv_shown(3) [of w m v selected vec pred ys row rows]) simp_all
  show "messages (performed (hiv_page selected True) w) =
      (if 0 \<le> pred \<and> pred < int (length row) then
         [if pred = 1 then St_error (With_confidence ''High Risk'' (row ! nat pred))
          else St_success (With_confidence ''Low Risk'' (row ! nat pred))]
       else if - int (length row) \<le> pred \<and> pred < 0 then
         [St_success (With_confidence ''Low Risk'' (row ! nat (int (length row) + pred)))]
       else [])"
    by (simp add: a subscript_cases)
  show "fst (hiv_page selected True w) =
      (if - int (length row) \<le> pred \<and> pred < int (length row) then Inr ()
       else Inl IndexError)"
    by (auto simp add: b subscript_cases)
next
  assume h: "dict w ''tb'' = Some (Some t) \<and>
    predict t (Rows [map PyInt (tb_data answer)]) = Inr (pred' # ys') \<and>
    predict_proba t (Rows [map PyInt (tb_data answer)]) = Inr (row' # rows')"
  then have a: "messages (performed (tb_page answer True) w) =
       (case subscript row' pred' of Inl e \<Rightarrow> []
        | Inr p \<Rightarrow> [if pred' = 1 then St_error (With_confidence ''High TB Risk'' p)
                    else St_success (With_confidence ''Low TB Risk'' p)])"
    by (intro tb_shown(1) [of w t answer pred' ys' row' rows']) simp_all
  from h have b: "fst (tb_page answer True w) =
       (case subscript row' pred' of Inl e \<Rightarrow> Inl e | Inr p \<Rightarrow> Inr ())"
    by (intro tb_shown(3) [of w t answer pred' ys' row' rows']) simp_all
  show "messages (performed (tb_page answer True) w) =
      (if 0 \<le> pred' \<and> pred' < int (length row') then
         [if pred' = 1 then St_error (With_confidence ''High TB Risk'' (row' ! nat pred'))
          else St_success (With_confidence ''Low TB Risk'' (row' ! nat pred'))]
       else if - int (length row') \<le> pred' \<and> pred' < 0 then
         [St_success (With_confidence ''Low TB Risk'' (row' ! nat (int (length row') + pred')))]
       else [])"
    by (simp add: a subscript_cases)
  show "fst (tb_page answer True w) =
      (if - int (length row') \<le> pred' \<and> pred' < int (length row') then Inr ()
       else Inl IndexError)"
    by (auto simp add: b subscript_cases)
qed

text \<open>
  C10, amended, for a model with four classes and the probabilities 0.25, 0.5, 0.1 and
  0.15: predicting label 2, both pages show the low-risk message with 0.1; predicting
  label 1, the high-risk message with 0.5.
\<close>

theorem low_risk_for_indexable_label_witness:
  "dict (loaded_world [2] [[1 / 4, 1 / 2, 1 / 10, 3 / 20]]) ''hiv'' =
     Some (Some (fixed_classifier [2] [[1 / 4, 1 / 2, 1 / 10, 3 / 20]])) \<and>
   dict (loaded_world [2] [[1 / 4, 1 / 2, 1 / 10, 3 / 20]]) ''vectorizer'' =
     Some (Some example_vectorizer) \<and>
   dict (loaded_world [2] [[1 / 4, 1 / 2, 1 / 10, 3 / 20]]) ''tb'' =
     Some (Some (fixed_classifier [2] [[1 / 4, 1 / 2, 1 / 10, 3 / 20]])) \<and>
   messages (performed (hiv_page [''Fever''] True)
       (loaded_world [2] [[1 / 4, 1 / 2, 1 / 10, 3 / 20]])) =
     [St_success (With_confidence ''Low Risk'' (1 / 10))] \<and>
   messages (performed (tb_page (\<lambda>s. ''Absent'') True)
       (loaded_world [2] [[1 / 4, 1 / 2, 1 / 10, 3 / 20]])) =
     [St_success (With_confidence ''Low TB Risk'' (1 / 10))] \<and>
   messages (performed (hiv_page [''Fever''] True)
       (loaded_world [1] [[1 / 4, 1 / 2, 1 / 10, 3 / 20]])) =
     [St_error (With_confidence ''High Risk'' (1 / 2))] \<and>
   messages (performed (tb_page (\<lambda>s. ''Absent'') True)
       (loaded_world [1] [[1 / 4, 1 / 2, 1 / 10, 3 / 20]])) =
     [St_error (With_confidence ''High TB Risk'' (1 / 2))]"
proof -
  have h2: "dict (loaded_world [l] [[1 / 4, 1 / 2, 1 / 10, 3 / 20]]) ''hiv'' =
      Some (Some (fixed_classifier [l] [[1 / 4, 1 / 2, 1 / 10, 3 / 20]]))" for l
    by (rule loaded_world_dict(2))
  have h3: "dict (loaded_world [l] [[1 / 4, 1 / 2, 1 / 10, 3 / 20]]) ''vectorizer'' =
      Some (Some example_vectorizer)" for l
    by (rule loaded_world_dict(3))
  have h4: "dict (loaded_world [l] [[1 / 4, 1 / 2, 1 / 10, 3 / 20]]) ''tb'' =
      Some (Some (fixed_classifier [l] [[1 / 4, 1 / 2, 1 / 10, 3 / 20]]))" for l
    by (rule loaded_world_dict(4))
  note t2 = low_risk_for_indexable_label [
      where w = "loaded_world [2] [[1 / 4, 1 / 2, 1 / 10, 3 / 20]]"
      and m = "fixed_classifier [2] [[1 / 4, 1 / 2, 1 / 10, 3 / 20]]" and v = example_vectorizer
      and selected = "[''Fever'']" and vec = "''Fever''" and pred = 2 and ys = "[]"
      and row = "[1 / 4, 1 / 2, 1 / 10, 3 / 20]" and rows = "[]"
      and t = "fixed_classifier [2] [[1 / 4, 1 / 2, 1 / 10, 3 / 20]]"
      and answer = "\<lambda>s. ''Absent''" and pred' = 2 and ys' = "[]"
      and row' = "[1 / 4, 1 / 2, 1 / 10, 3 / 20]" and rows' = "[]"]
  note t1 = low_risk_for_indexable_label [
      where w = "loaded_world [1] [[1 / 4, 1 / 2, 1 / 10, 3 / 20]]"
      and m = "fixed_classifier [1] [[1 / 4, 1 / 2, 1 / 10, 3 / 20]]" and v = example_vectorizer
      and selected = "[''Fever'']" and vec = "''Fever''" and pred = 1 and ys = "[]"
      and row = "[1 / 4, 1 / 2, 1 / 10, 3 / 20]" and rows = "[]"
      and t = "fixed_classifier [1] [[1 / 4, 1 / 2, 1 / 10, 3 / 20]]"
      and answer = "\<lambda>s. ''Absent''" and pred' = 1 and ys' = "[]"
      and row' = "[1 / 4, 1 / 2, 1 / 10, 3 / 20]" and rows' = "[]"]
  have a: "messages (performed (hiv_page [''Fever''] True)
      (loaded_world [2] [[1 / 4, 1 / 2, 1 / 10, 3 / 20]])) =
      [St_success (With_confidence ''Low Risk'' (1 / 10))]"
    using t2 h2 [of 2] h3 [of 2] example_vectorizer_fever fixed_classifier_answers by simp
  have b: "messages (performed (tb_page (\<lambda>s. ''Absent'') True)
      (loaded_world [2] [[1 / 4, 1 / 2, 1 / 10, 3 / 20]])) =
      [St_success (With_confidence ''Low TB Risk'' (1 / 10))]"
    using t2 h4 [of 2] fixed_classifier_answers by simp
  have c: "messages (performed (hiv_page [''Fever''] True)
      (loaded_world [1] [[1 / 4, 1 / 2, 1 / 10, 3 / 20]])) =
      [St_error (With_confidence ''High Risk'' (1 / 2))]"
    using t1 h2 [of 1] h3 [of 1] example_vectorizer_fever fixed_classifier_answers by simp
  have d: "messages (performed (tb_page (\<lambda>s. ''Absent'') True)
      (loaded_world [1] [[1 / 4, 1 / 2, 1 / 10, 3 / 20]])) =
      [St_error (With_confidence ''High TB Risk'' (1 / 2))]"
    using t1 h4 [of 1] fixed_classifier_answers by simp
  from h2 [of 2] h3 [of 2] h4 [of 2] a b c d show ?thesis by (intro conjI)
qed

end
